theory Spec2Isabelle
  imports Main "HOL-Library.Sublist"
begin

section \<open>JavaScript values as the client sees them\<close>

text \<open>
  A decoded packet is whatever \<^verbatim>\<open>JSON.parse\<close> returned: a number, a string, a boolean,
  \<^verbatim>\<open>null\<close>, an array or an object. \<open>JUndefined\<close> is what reading a missing property
  or a missing default parameter gives. \<open>JNum\<close> carries integer-valued numbers, such as the
  ping counter; fractions are outside this model. A string is its sequence of code
  units. \<open>JObj\<close> lists the own properties of a parsed object, each key once.
\<close>

datatype jsval =
    JUndefined
  | JNull
  | JBool bool
  | JNum int
  | JStr string
  | JArr "jsval list"
  | JObj "(string \<times> jsval) list"

text \<open>What a JavaScript condition (\<^verbatim>\<open>if (v)\<close>, \<^verbatim>\<open>a && b\<close>) makes of a value.\<close>

fun truthy :: "jsval \<Rightarrow> bool" where
  "truthy JUndefined = False"
| "truthy JNull = False"
| "truthy (JBool b) = b"
| "truthy (JNum n) = (n \<noteq> 0)"
| "truthy (JStr s) = (s \<noteq> [])"
| "truthy (JArr xs) = True"
| "truthy (JObj kvs) = True"

datatype error = TypeError

text \<open>
  \<^verbatim>\<open>v.name\<close> for the names \<open>m\<close>, \<open>p\<close> and \<open>0\<close>, none of which any built-in prototype
  defines: an own property of an object, \<^verbatim>\<open>undefined\<close> otherwise; reading a property
  of \<^verbatim>\<open>null\<close> or \<^verbatim>\<open>undefined\<close> throws.
\<close>

fun own_property :: "jsval \<Rightarrow> string \<Rightarrow> jsval" where
  "own_property (JObj kvs) name = (case map_of kvs name of Some v \<Rightarrow> v | None \<Rightarrow> JUndefined)"
| "own_property _ name = JUndefined"

fun read_property :: "jsval \<Rightarrow> string \<Rightarrow> error + jsval" where
  "read_property JUndefined name = Inl TypeError"
| "read_property JNull name = Inl TypeError"
| "read_property v name = Inr (own_property v name)"

text \<open>\<^verbatim>\<open>v[0]\<close> on a value that is neither \<^verbatim>\<open>null\<close> nor \<^verbatim>\<open>undefined\<close>.\<close>

fun first_element :: "jsval \<Rightarrow> jsval" where
  "first_element (JArr []) = JUndefined"
| "first_element (JArr (x # xs)) = x"
| "first_element (JStr []) = JUndefined"
| "first_element (JStr (ch # s)) = JStr [ch]"
| "first_element (JObj kvs) = own_property (JObj kvs) ''0''"
| "first_element _ = JUndefined"

subsection \<open>Numbers and property keys as strings\<close>

definition digit_char :: "nat \<Rightarrow> char" where
  "digit_char d = ''0123456789'' ! d"

function nat_toString :: "nat \<Rightarrow> string" where
  "nat_toString n = (if n < 10 then [digit_char n] else nat_toString (n div 10) @ [digit_char (n mod 10)])"
  by pat_completeness auto
termination
  by (relation "measure (\<lambda>n. n)") auto

declare nat_toString.simps [simp del]

definition integer_toString :: "int \<Rightarrow> string" where
  "integer_toString n = (if n < 0 then CHR ''-'' # nat_toString (nat (- n)) else nat_toString (nat n))"

text \<open>Reading plain decimal back, to say what the digits of \<open>integer_toString\<close> denote.\<close>

definition digit_value :: "char \<Rightarrow> nat" where
  "digit_value ch = length (takeWhile (\<lambda>d. d \<noteq> ch) ''0123456789'')"

definition decimal_value :: "string \<Rightarrow> nat" where
  "decimal_value s = foldl (\<lambda>a ch. 10 * a + digit_value ch) 0 s"

definition read_integer :: "string \<Rightarrow> int" where
  "read_integer s =
     (case s of
        [] \<Rightarrow> 0
      | ch # ds \<Rightarrow> if ch = CHR ''-'' then - int (decimal_value ds) else int (decimal_value s))"

text \<open>
  The module \<^verbatim>\<open>./protocol\<close> is used by the client and lives outside it: its decoder
  and its encoder are parameters of every operation that calls them.
\<close>

record protocol =
  parseWSPacket :: "string \<Rightarrow> jsval list"
  formatWSPacket :: "jsval \<Rightarrow> string"

text \<open>
  \<^verbatim>\<open>`${n}`\<close> and \<^verbatim>\<open>String(n)\<close> for an integer-valued number. In the safe range, up
  to \<open>2^53\<close> in magnitude, every integer is a number of its own and is printed in plain
  decimal. Beyond it the engine prints the shortest digits that read back as the same
  number, padded with zeros, and in exponent notation from \<open>10^21\<close> on; that text depends
  on floating-point rounding and is a parameter, carried with the protocol module as the
  host of the client.
\<close>

definition safe_integer :: "int \<Rightarrow> bool" where
  "safe_integer n = (\<bar>n\<bar> \<le> 2 ^ 53)"

record host = protocol +
  unsafe_number_toString :: "int \<Rightarrow> string"

definition number_toString :: "host \<Rightarrow> int \<Rightarrow> string" where
  "number_toString H n =
     (if safe_integer n then integer_toString n else unsafe_number_toString H n)"

fun join_comma :: "string option list \<Rightarrow> string option" where
  "join_comma [] = Some []"
| "join_comma [x] = x"
| "join_comma (x # y # ys) =
     (case x of
        None \<Rightarrow> None
      | Some s \<Rightarrow> (case join_comma (y # ys) of None \<Rightarrow> None | Some r \<Rightarrow> Some (s @ '','' @ r)))"

text \<open>
  The property key a value becomes in \<^verbatim>\<open>obj[v]\<close>; \<open>None\<close> is the TypeError of an object
  that cannot be converted (a parsed object whose own \<open>toString\<close> property hides the
  inherited method). An array joins its elements with commas, \<^verbatim>\<open>null\<close> and
  \<^verbatim>\<open>undefined\<close> elements as the empty string.
\<close>

fun toPropertyKey :: "host \<Rightarrow> jsval \<Rightarrow> string option" where
  "toPropertyKey H JUndefined = Some ''undefined''"
| "toPropertyKey H JNull = Some ''null''"
| "toPropertyKey H (JBool b) = Some (if b then ''true'' else ''false'')"
| "toPropertyKey H (JNum n) = Some (number_toString H n)"
| "toPropertyKey H (JStr s) = Some s"
| "toPropertyKey H (JArr xs) =
     join_comma (map (\<lambda>x. if x = JUndefined \<or> x = JNull then Some [] else toPropertyKey H x) xs)"
| "toPropertyKey H (JObj kvs) =
     (if map_of kvs ''toString'' = None then Some ''[object Object]'' else None)"

section \<open>The client's state\<close>

text \<open>The transport's \<^verbatim>\<open>readyState\<close>: 0, 1, 2, 3.\<close>

datatype ready_state = CONNECTING | OPEN | CLOSING | CLOSED

text \<open>The \<^verbatim>\<open>ClientEvent\<close> names, which index \<^verbatim>\<open>#callbacks\<close>.\<close>

datatype client_event =
  EvConnected | EvDisconnected | EvLogged | EvPing | EvData | EvError | EvEvent

fun event_name :: "client_event \<Rightarrow> string" where
  "event_name EvConnected = ''connected''"
| "event_name EvDisconnected = ''disconnected''"
| "event_name EvLogged = ''logged''"
| "event_name EvPing = ''ping''"
| "event_name EvData = ''data''"
| "event_name EvError = ''error''"
| "event_name EvEvent = ''event''"

text \<open>
  Observers and session handlers are functions of the client's users. The model knows a
  function by an identity and records each call of it; the functions themselves are
  taken to return normally and not to call back into the client.
\<close>

type_synonym callback = nat

record session =
  session_type :: string
  session_onData :: callback

text \<open>
  Everything the client does to the outside, in the order it does it: writes and the close
  call on the transport, calls of observers (with the channel whose list they were taken
  from) and of session handlers (with the key they were found under), lines on the
  diagnostic output, the request to the credential exchange, and an exception that leaves
  a transport listener.
\<close>

datatype effect =
    WsSend string
  | WsClose
  | ConsoleError "jsval list"
  | Callback client_event callback "jsval list"
  | SessionOnData string session jsval
  | GetUser string string jsval
  | Uncaught error

text \<open>
  The private fields of the class, with \<open>readyState\<close> for the transport \<^verbatim>\<open>#ws\<close> and
  \<open>send_queue\<close> for \<^verbatim>\<open>#sendQueue\<close> (the method of that name is \<open>sendQueue\<close> below), and
  the trace of effects so far.
\<close>

record client =
  readyState :: ready_state
  logged :: bool
  sessions :: "string \<rightharpoonup> session"
  callbacks :: "client_event \<Rightarrow> callback list"
  send_queue :: "string list"
  trace :: "effect list"

definition isOpen :: "client \<Rightarrow> bool" where
  "isOpen c = (readyState c = OPEN)"

definition perform :: "client \<Rightarrow> effect \<Rightarrow> client" where
  "perform c e = c\<lparr>trace := trace c @ [e]\<rparr>"

text \<open>
  The calls on the transport. \<open>WsSend\<close> records the call \<^verbatim>\<open>this.#ws.send(data)\<close>; the
  client makes it on an open transport, or, for a pong, on one it has just asked to
  close in the same batch. \<^verbatim>\<open>this.#ws.close()\<close> moves a transport that is not yet
  closed to \<open>CLOSING\<close>; the \<open>close\<close> event that ends in \<open>CLOSED\<close> comes later, as an
  input of its own.
\<close>

definition ws_send :: "client \<Rightarrow> string \<Rightarrow> client" where
  "ws_send c d = perform c (WsSend d)"

definition ws_close :: "client \<Rightarrow> client" where
  "ws_close c =
     (perform c WsClose)\<lparr>readyState := (if readyState c = CLOSED then CLOSED else CLOSING)\<rparr>"

section \<open>Event dispatch\<close>

definition handleEvent :: "client \<Rightarrow> client_event \<Rightarrow> jsval list \<Rightarrow> client" where
  "handleEvent c ev data =
     c\<lparr>trace := trace c
         @ map (\<lambda>e. Callback ev e data) (callbacks c ev)
         @ map (\<lambda>e. Callback EvEvent e (JStr (event_name ev) # data)) (callbacks c EvEvent)\<rparr>"

definition handleError :: "client \<Rightarrow> jsval list \<Rightarrow> client" where
  "handleError c msgs =
     (if length (callbacks c EvError) = 0 then perform c (ConsoleError msgs)
      else handleEvent c EvError msgs)"

definition register :: "client_event \<Rightarrow> client \<Rightarrow> callback \<Rightarrow> client" where
  "register ev c cb = c\<lparr>callbacks := (callbacks c)(ev := callbacks c ev @ [cb])\<rparr>"

definition onConnected :: "client \<Rightarrow> callback \<Rightarrow> client" where
  "onConnected = register EvConnected"

definition onDisconnected :: "client \<Rightarrow> callback \<Rightarrow> client" where
  "onDisconnected = register EvDisconnected"

definition onLogged :: "client \<Rightarrow> callback \<Rightarrow> client" where
  "onLogged = register EvLogged"

definition onPing :: "client \<Rightarrow> callback \<Rightarrow> client" where
  "onPing = register EvPing"

definition onData :: "client \<Rightarrow> callback \<Rightarrow> client" where
  "onData = register EvData"

definition onError :: "client \<Rightarrow> callback \<Rightarrow> client" where
  "onError = register EvError"

definition onEvent :: "client \<Rightarrow> callback \<Rightarrow> client" where
  "onEvent = register EvEvent"

section \<open>The session registry\<close>

text \<open>
  \<^verbatim>\<open>#sessions\<close> is a plain object literal, filled and emptied by the session
  collaborators through the bridge; \<open>sessions c\<close> holds its own properties, each a
  \<^verbatim>\<open>Session\<close> (an object, so truthy, with its \<^verbatim>\<open>onData\<close> function). A plain object
  also answers for the names it inherits from \<^verbatim>\<open>Object.prototype\<close>: functions (and
  the prototype itself, under \<open>__proto__\<close>), all truthy and none with an \<^verbatim>\<open>onData\<close>.
  The collaborators are taken never to register the key \<open>__proto__\<close>.
\<close>

definition Object_prototype_names :: "string list" where
  "Object_prototype_names =
     [''constructor'', ''__defineGetter__'', ''__defineSetter__'', ''hasOwnProperty'',
      ''__lookupGetter__'', ''__lookupSetter__'', ''isPrototypeOf'', ''propertyIsEnumerable'',
      ''toString'', ''valueOf'', ''__proto__'', ''toLocaleString'']"

datatype lookup = Own session | Inherited | Absent

definition sessions_lookup :: "client \<Rightarrow> string \<Rightarrow> lookup" where
  "sessions_lookup c key =
     (case sessions c key of
        Some s \<Rightarrow> Own s
      | None \<Rightarrow> if key \<in> set Object_prototype_names then Inherited else Absent)"

section \<open>Inbound packets\<close>

text \<open>Lines 192 to 197: a packet no session took is the login packet or generic data.\<close>

definition logged_or_data :: "client \<Rightarrow> jsval \<Rightarrow> client" where
  "logged_or_data c packet =
     (if \<not> logged c then handleEvent c EvLogged [packet]
      else handleEvent c EvData [packet])"

text \<open>
  Lines 178 to 190. \<open>Inr None\<close>: the packet was not for a session and falls through;
  \<open>Inr (Some c')\<close>: a session handler was called and the callback returned; \<open>Inl\<close>:
  the lookup or the call threw.
\<close>

definition to_session :: "host \<Rightarrow> client \<Rightarrow> jsval \<Rightarrow> jsval \<Rightarrow> error + client option" where
  "to_session P c m p =
     (if truthy m \<and> truthy p then
        (let parsed = JObj [(''type'', m), (''data'', p)];
             session = first_element p
         in if truthy session then
              (case toPropertyKey P session of
                 None \<Rightarrow> Inl TypeError
               | Some key \<Rightarrow>
                   (case sessions_lookup c key of
                      Own s \<Rightarrow> Inr (Some (perform c (SessionOnData key s parsed)))
                    | Inherited \<Rightarrow> Inl TypeError
                    | Absent \<Rightarrow> Inr None))
            else Inr None)
      else Inr None)"

text \<open>The function \<^verbatim>\<open>#parsePacket\<close> hands to \<^verbatim>\<open>forEach\<close>, run on one packet.\<close>

definition parsePacket_each :: "host \<Rightarrow> client \<Rightarrow> jsval \<Rightarrow> error + client" where
  "parsePacket_each P c packet =
     (case packet of
        JNum n \<Rightarrow>
          Inr (handleEvent
                 (ws_send c (formatWSPacket P (JStr (''~h~'' @ number_toString P n))))
                 EvPing [packet])
      | _ \<Rightarrow>
          (case read_property packet ''m'' of
             Inl e \<Rightarrow> Inl e
           | Inr m \<Rightarrow>
               if m = JStr ''protocol_error'' then
                 Inr (ws_close
                        (handleError c [JStr ''Client critical error:'', own_property packet ''p'']))
               else
                 (case to_session P c m (own_property packet ''p'') of
                    Inl e \<Rightarrow> Inl e
                  | Inr (Some c') \<Rightarrow> Inr c'
                  | Inr None \<Rightarrow> Inr (logged_or_data c packet))))"

text \<open>
  \<^verbatim>\<open>forEach\<close> over the decoded packets: a \<^verbatim>\<open>return\<close> in the callback ends that call
  only, an exception ends the loop. \<open>Inl (e, c')\<close> is the exception with the state it left.
\<close>

fun forEach_packet :: "host \<Rightarrow> client \<Rightarrow> jsval list \<Rightarrow> error \<times> client + client" where
  "forEach_packet P c [] = Inr c"
| "forEach_packet P c (packet # rest) =
     (case parsePacket_each P c packet of
        Inl e \<Rightarrow> Inl (e, c)
      | Inr c' \<Rightarrow> forEach_packet P c' rest)"

definition parsePacket :: "host \<Rightarrow> client \<Rightarrow> string \<Rightarrow> error \<times> client + client" where
  "parsePacket P c str =
     (if \<not> isOpen c then Inr c else forEach_packet P c (parseWSPacket P str))"

section \<open>The send queue\<close>

function sendQueue :: "client \<Rightarrow> client" where
  "sendQueue c =
     (if isOpen c \<and> logged c \<and> length (send_queue c) > 0 then
        sendQueue (ws_send (c\<lparr>send_queue := tl (send_queue c)\<rparr>) (hd (send_queue c)))
      else c)"
  by pat_completeness auto
termination
  by (relation "measure (\<lambda>c. length (send_queue c))")
     (auto simp: ws_send_def perform_def)

declare sendQueue.simps [simp del]

text \<open>The frame \<^verbatim>\<open>send(t, p = [])\<close> queues: the default stands in for a missing \<open>p\<close>.\<close>

definition send_frame :: "host \<Rightarrow> jsval \<Rightarrow> jsval \<Rightarrow> string" where
  "send_frame P t p =
     formatWSPacket P (JObj [(''m'', t), (''p'', if p = JUndefined then JArr [] else p)])"

definition send :: "host \<Rightarrow> client \<Rightarrow> jsval \<Rightarrow> jsval \<Rightarrow> client" where
  "send P c t p = sendQueue (c\<lparr>send_queue := send_queue c @ [send_frame P t p]\<rparr>)"

section \<open>Construction and authentication\<close>

text \<open>
  The options that reach the modelled state; \<open>DEBUG\<close> and \<open>server\<close> choose the log
  and the address only. An option is \<open>None\<close> when the caller left it out.
\<close>

record clientOptions =
  token :: "string option"
  signature :: "string option"
  location :: jsval

definition option_truthy :: "string option \<Rightarrow> bool" where
  "option_truthy v = (case v of None \<Rightarrow> False | Some s \<Rightarrow> s \<noteq> [])"

definition option_string :: "string option \<Rightarrow> string" where
  "option_string v = (case v of None \<Rightarrow> [] | Some s \<Rightarrow> s)"

definition new_client :: client where
  "new_client =
     \<lparr>readyState = CONNECTING, logged = False, sessions = Map.empty,
      callbacks = (\<lambda>ev. []), send_queue = [], trace = []\<rparr>"

definition set_auth_token :: "host \<Rightarrow> jsval \<Rightarrow> string" where
  "set_auth_token P tok = formatWSPacket P (JObj [(''m'', JStr ''set_auth_token''), (''p'', JArr [tok])])"

text \<open>
  What both branches do with the auth frame (lines 260 to 265 and 270 to 275): put it at
  the head of the queue, raise the flag, try to flush.
\<close>

definition enqueue_auth :: "host \<Rightarrow> client \<Rightarrow> jsval \<Rightarrow> client" where
  "enqueue_auth P c tok =
     sendQueue (c\<lparr>send_queue := set_auth_token P tok # send_queue c, logged := True\<rparr>)"

definition constructor :: "host \<Rightarrow> clientOptions \<Rightarrow> client" where
  "constructor P opts =
     (if option_truthy (token opts) then
        perform new_client
          (GetUser (option_string (token opts))
             (if option_truthy (signature opts) then option_string (signature opts) else [])
             (location opts))
      else enqueue_auth P new_client (JStr ''unauthorized_user_token''))"

text \<open>
  The two continuations of \<^verbatim>\<open>misc.getUser(...)\<close>: it resolved with a user, whose
  \<^verbatim>\<open>authToken\<close> is the argument, or it rejected with an error, whose \<^verbatim>\<open>message\<close> is.
\<close>

definition getUser_then :: "host \<Rightarrow> client \<Rightarrow> jsval \<Rightarrow> client" where
  "getUser_then P c authToken = enqueue_auth P c authToken"

definition getUser_catch :: "client \<Rightarrow> jsval \<Rightarrow> client" where
  "getUser_catch c message = handleError c [JStr ''Credentials error:'', message]"

section \<open>Transport listeners and the client as a reactive system\<close>

definition ws_on_open :: "client \<Rightarrow> client" where
  "ws_on_open c = sendQueue (handleEvent (c\<lparr>readyState := OPEN\<rparr>) EvConnected [])"

definition ws_on_close :: "client \<Rightarrow> client" where
  "ws_on_close c = handleEvent (c\<lparr>readyState := CLOSED, logged := False\<rparr>) EvDisconnected []"

definition ws_on_error :: "client \<Rightarrow> jsval \<Rightarrow> client" where
  "ws_on_error c err = handleError c [err]"

definition ws_on_message :: "host \<Rightarrow> client \<Rightarrow> string \<Rightarrow> client" where
  "ws_on_message P c data =
     (case parsePacket P c data of
        Inr c' \<Rightarrow> c'
      | Inl (e, c') \<Rightarrow> perform c' (Uncaught e))"

text \<open>The method \<^verbatim>\<open>end()\<close>.\<close>

definition end_client :: "client \<Rightarrow> client" where
  "end_client c = (if readyState c \<noteq> CONNECTING then ws_close c else c)"

text \<open>
  Everything that can happen to a client after its construction: a call of one of its
  methods, a change of the registry through the bridge, an event of the transport, or the
  credential exchange settling.
\<close>

datatype input =
    CallSend jsval jsval
  | CallSendQueue
  | CallEnd
  | CallOn client_event callback
  | SessionsPut string session
  | SessionsDelete string
  | SocketOpen
  | SocketClose
  | SocketError jsval
  | SocketMessage string
  | GetUserResolved jsval
  | GetUserRejected jsval

fun react :: "host \<Rightarrow> client \<Rightarrow> input \<Rightarrow> client" where
  "react P c (CallSend t p) = send P c t p"
| "react P c CallSendQueue = sendQueue c"
| "react P c CallEnd = end_client c"
| "react P c (CallOn ev cb) = register ev c cb"
| "react P c (SessionsPut key s) = c\<lparr>sessions := (sessions c)(key \<mapsto> s)\<rparr>"
| "react P c (SessionsDelete key) = c\<lparr>sessions := (sessions c)(key := None)\<rparr>"
| "react P c SocketOpen = ws_on_open c"
| "react P c SocketClose = ws_on_close c"
| "react P c (SocketError err) = ws_on_error c err"
| "react P c (SocketMessage data) = ws_on_message P c data"
| "react P c (GetUserResolved authToken) = getUser_then P c authToken"
| "react P c (GetUserRejected message) = getUser_catch c message"

definition run :: "host \<Rightarrow> client \<Rightarrow> input list \<Rightarrow> client" where
  "run P c inputs = foldl (react P) c inputs"

fun resolves :: "input \<Rightarrow> bool" where
  "resolves (GetUserResolved authToken) = True"
| "resolves _ = False"

text \<open>The frames the \<^verbatim>\<open>send\<close> calls among the inputs queue, in call order.\<close>

fun queued :: "host \<Rightarrow> input list \<Rightarrow> string list" where
  "queued P [] = []"
| "queued P (CallSend t p # inputs) = send_frame P t p # queued P inputs"
| "queued P (i # inputs) = queued P inputs"

text \<open>A decoded Message frame: a parsed JSON object.\<close>

fun is_Message :: "jsval \<Rightarrow> bool" where
  "is_Message (JObj kvs) = True"
| "is_Message _ = False"

fun is_SessionOnData :: "effect \<Rightarrow> bool" where
  "is_SessionOnData (SessionOnData key s parsed) = True"
| "is_SessionOnData _ = False"

section \<open>A protocol module for the worked examples\<close>

text \<open>
  Modelled from the spec: the encoder of \<^verbatim>\<open>./protocol\<close>, whose file is not among the
  sources. It "serializes a value to JSON then wraps it as \<^verbatim>\<open>~m~<L>~m~<payload>\<close> where
  \<open>L\<close> is the exact length of the payload"; a string payload, such as the pong's
  \<^verbatim>\<open>~h~<n>\<close>, is wrapped as it is. The JSON text is written for values whose strings
  need no escaping and whose numbers are safe integers. The decoder is a table from raw
  text to the frames it holds. The examples hold no number beyond the safe range, so the
  host's printing of those is never consulted; it is set to the plain digits.
\<close>

fun join_with_commas :: "string list \<Rightarrow> string" where
  "join_with_commas [] = []"
| "join_with_commas [x] = x"
| "join_with_commas (x # y # ys) = x @ '','' @ join_with_commas (y # ys)"

definition json_quote :: "string \<Rightarrow> string" where
  "json_quote s = CHR 0x22 # s @ [CHR 0x22]"

fun json_text :: "jsval \<Rightarrow> string" where
  "json_text JUndefined = ''null''"
| "json_text JNull = ''null''"
| "json_text (JBool b) = (if b then ''true'' else ''false'')"
| "json_text (JNum n) = integer_toString n"
| "json_text (JStr s) = json_quote s"
| "json_text (JArr xs) = ''['' @ join_with_commas (map json_text xs) @ '']''"
| "json_text (JObj kvs) =
     ''{'' @ join_with_commas (map (\<lambda>kv. json_quote (fst kv) @ '':'' @ json_text (snd kv)) kvs) @ ''}''"

definition wrap_frame :: "string \<Rightarrow> string" where
  "wrap_frame msg = ''~m~'' @ nat_toString (length msg) @ ''~m~'' @ msg"

definition formatWSPacket_spec :: "jsval \<Rightarrow> string" where
  "formatWSPacket_spec packet =
     (case packet of JStr s \<Rightarrow> wrap_frame s | _ \<Rightarrow> wrap_frame (json_text packet))"

definition table_decoder :: "(string \<times> jsval list) list \<Rightarrow> string \<Rightarrow> jsval list" where
  "table_decoder table str = (case map_of table str of Some frames \<Rightarrow> frames | None \<Rightarrow> [])"

definition example_protocol :: "(string \<times> jsval list) list \<Rightarrow> host" where
  "example_protocol table =
     \<lparr>parseWSPacket = table_decoder table, formatWSPacket = formatWSPacket_spec,
      unsafe_number_toString = integer_toString\<rparr>"

definition quote_session :: session where
  "quote_session = \<lparr>session_type = ''quote'', session_onData = 7\<rparr>"

definition anonymous :: clientOptions where
  "anonymous = \<lparr>token = None, signature = None, location = JUndefined\<rparr>"

definition with_token :: clientOptions where
  "with_token = \<lparr>token = Some ''sessionid'', signature = None, location = JUndefined\<rparr>"

text \<open>
  An anonymous client whose transport has opened, with one observer on each of the
  channels \<open>logged\<close>, \<open>data\<close>, \<open>event\<close>, \<open>ping\<close> and \<open>error\<close>, and a quote session
  registered under \<open>qs_1\<close>, under the empty key and under \<open>0\<close>.
\<close>

definition example_inputs :: "input list" where
  "example_inputs =
     [SocketOpen, CallOn EvLogged 1, CallOn EvData 2, CallOn EvEvent 3, CallOn EvPing 4,
      CallOn EvError 5, SessionsPut ''qs_1'' quote_session, SessionsPut [] quote_session,
      SessionsPut ''0'' quote_session]"

definition example_client :: client where
  "example_client = run (example_protocol []) (constructor (example_protocol []) anonymous) example_inputs"

definition protocol_error_packet :: jsval where
  "protocol_error_packet = JObj [(''m'', JStr ''protocol_error''), (''p'', JArr [JStr ''bad session''])]"

definition quote_packet :: jsval where
  "quote_packet = JObj [(''m'', JStr ''qsd''), (''p'', JArr [JStr ''qs_1'', JObj []])]"

definition data_packet :: jsval where
  "data_packet = JObj [(''m'', JStr ''du''), (''p'', JArr [JStr ''cs_9'', JObj []])]"

definition inherited_name_packet :: jsval where
  "inherited_name_packet = JObj [(''m'', JStr ''qsd''), (''p'', JArr [JStr ''constructor''])]"

definition example_batch :: "jsval list" where
  "example_batch = [protocol_error_packet, quote_packet, data_packet, JNum 5]"

definition example_batch_text :: string where
  "example_batch_text = concat (map formatWSPacket_spec example_batch)"

definition batch_protocol :: host where
  "batch_protocol = example_protocol [(example_batch_text, example_batch)]"

text \<open>
  A client built with a token: two sends around the opening of the transport, and the
  server's first packet, all before the credential exchange settles.
\<close>

definition login_packet :: jsval where
  "login_packet = JObj [(''session_id'', JStr ''abc''), (''timestamp'', JNum 1)]"

definition login_protocol :: host where
  "login_protocol = example_protocol [(formatWSPacket_spec login_packet, [login_packet])]"

definition pending_inputs :: "input list" where
  "pending_inputs =
     [CallSend (JStr ''quote_create_session'') (JArr [JStr ''qs_1'']),
      SocketOpen,
      SocketMessage (formatWSPacket_spec login_packet),
      CallSend (JStr ''quote_add_symbols'') (JArr [JStr ''qs_1'', JStr ''BTCUSD''])]"

section \<open>How the operations leave the state\<close>

lemma handleEvent_fields [simp]:
  "readyState (handleEvent c ev data) = readyState c"
  "logged (handleEvent c ev data) = logged c"
  "sessions (handleEvent c ev data) = sessions c"
  "callbacks (handleEvent c ev data) = callbacks c"
  "send_queue (handleEvent c ev data) = send_queue c"
  by (simp_all add: handleEvent_def)

lemma perform_fields [simp]:
  "readyState (perform c e) = readyState c"
  "logged (perform c e) = logged c"
  "sessions (perform c e) = sessions c"
  "callbacks (perform c e) = callbacks c"
  "send_queue (perform c e) = send_queue c"
  "trace (perform c e) = trace c @ [e]"
  by (simp_all add: perform_def)

lemma handleError_fields [simp]:
  "readyState (handleError c msgs) = readyState c"
  "logged (handleError c msgs) = logged c"
  "sessions (handleError c msgs) = sessions c"
  "callbacks (handleError c msgs) = callbacks c"
  "send_queue (handleError c msgs) = send_queue c"
  by (simp_all add: handleError_def)

lemma ws_close_fields [simp]:
  "logged (ws_close c) = logged c"
  "sessions (ws_close c) = sessions c"
  "callbacks (ws_close c) = callbacks c"
  "send_queue (ws_close c) = send_queue c"
  "trace (ws_close c) = trace c @ [WsClose]"
  "readyState (ws_close c) \<noteq> OPEN"
  by (simp_all add: ws_close_def)

lemma sendQueue_gated: "\<not> (isOpen c \<and> logged c) \<Longrightarrow> sendQueue c = c"
  by (subst sendQueue.simps) auto

lemma sendQueue_drain:
  "isOpen c \<Longrightarrow> logged c \<Longrightarrow>
   sendQueue c = c\<lparr>send_queue := [], trace := trace c @ map WsSend (send_queue c)\<rparr>"
proof (induction c rule: sendQueue.induct)
  case (1 c)
  show ?case
  proof (cases "send_queue c")
    case Nil
    then show ?thesis by (subst sendQueue.simps) simp
  next
    case (Cons d ds)
    let ?c' = "ws_send (c\<lparr>send_queue := tl (send_queue c)\<rparr>) (hd (send_queue c))"
    have open': "isOpen ?c'" and logged': "logged ?c'"
      using "1.prems" by (simp_all add: isOpen_def ws_send_def)
    have "sendQueue c = sendQueue ?c'"
      using "1.prems" Cons by (subst sendQueue.simps) simp
    also have "\<dots> = ?c'\<lparr>send_queue := [], trace := trace ?c' @ map WsSend (send_queue ?c')\<rparr>"
      using "1.IH" "1.prems" Cons open' logged' by simp
    also have "\<dots> = c\<lparr>send_queue := [], trace := trace c @ map WsSend (send_queue c)\<rparr>"
      using Cons by (simp add: ws_send_def perform_def)
    finally show ?thesis .
  qed
qed

section \<open>The send queue: gate and order\<close>

text \<open>
  C3. A flush writes the queued entries to the transport in queue order, first in first
  out, and empties the queue, when the transport is open and the authenticated flag is up;
  when either fails it changes nothing: every entry stays queued, none is dropped and
  nothing is written.
\<close>

theorem sendQueue_fifo_when_open_and_logged:
  "sendQueue c =
     (if isOpen c \<and> logged c
      then c\<lparr>send_queue := [], trace := trace c @ map WsSend (send_queue c)\<rparr>
      else c)"
  using sendQueue_gated [of c] sendQueue_drain [of c] by simp

section \<open>Reporting errors\<close>


lemma foldl_register:
  "callbacks (foldl (register ev) c cbs) ev = callbacks c ev @ cbs"
  by (induction cbs arbitrary: c) (simp_all add: register_def)

text \<open>
  C9. An error report with at least one observer on the error channel calls every error
  observer with the error's arguments, in the order the observers were registered (each
  registration appends), and then the catch-all observers; with no error observer it
  writes the arguments to the diagnostic output and calls no observer at all. Either way
  the report returns to its caller: it has no exceptional outcome.
\<close>

theorem handleError_observers_or_console:
  "handleError c msgs =
     c\<lparr>trace := trace c @
        (if callbacks c EvError = [] then [ConsoleError msgs]
         else map (\<lambda>cb. Callback EvError cb msgs) (callbacks c EvError)
            @ map (\<lambda>cb. Callback EvEvent cb (JStr ''error'' # msgs)) (callbacks c EvEvent))\<rparr>
   \<and> callbacks (foldl onError c cbs) EvError = callbacks c EvError @ cbs"
  by (simp add: handleError_def handleEvent_def perform_def onError_def foldl_register)

section \<open>The example client\<close>

lemma run_Cons: "run P c (i # inputs) = run P (react P c i) inputs"
  by (simp add: run_def)

lemma run_Nil: "run P c [] = c"
  by (simp add: run_def)

lemma example_client_eq:
  "example_client =
     \<lparr>readyState = OPEN, logged = True,
      sessions = [''qs_1'' \<mapsto> quote_session, [] \<mapsto> quote_session, ''0'' \<mapsto> quote_session],
      callbacks = ((\<lambda>ev. [])(EvLogged := [1], EvData := [2], EvEvent := [3], EvPing := [4], EvError := [5])),
      send_queue = [],
      trace = [WsSend (set_auth_token (example_protocol []) (JStr ''unauthorized_user_token''))]\<rparr>"
  by (simp add: example_client_def example_inputs_def run_Cons run_Nil constructor_def anonymous_def
      option_truthy_def enqueue_auth_def new_client_def sendQueue_gated sendQueue_drain isOpen_def
      ws_on_open_def handleEvent_def register_def fun_upd_twist)


lemma example_client_fields:
  "readyState example_client = OPEN" "logged example_client = True"
  "sessions example_client ''qs_1'' = Some quote_session"
  "sessions example_client [] = Some quote_session"
  "sessions example_client ''0'' = Some quote_session"
  "sessions example_client ''cs_9'' = None"
  "sessions example_client ''constructor'' = None"
  "callbacks example_client EvLogged = [1]" "callbacks example_client EvData = [2]"
  "callbacks example_client EvEvent = [3]" "callbacks example_client EvPing = [4]"
  "callbacks example_client EvError = [5]"
  "send_queue example_client = []"
  by (simp_all add: example_client_eq)

section \<open>Pings\<close>

lemma digit_value_digit_char: "d < 10 \<Longrightarrow> digit_value (digit_char d) = d"
proof -
  assume "d < 10"
  then have "d \<in> {0, 1, 2, 3, 4, 5, 6, 7, 8, 9}" by auto
  then show ?thesis
    by (auto simp: digit_value_def digit_char_def)
qed

lemma digit_char_not_minus: "d < 10 \<Longrightarrow> digit_char d \<noteq> CHR ''-''"
proof -
  assume "d < 10"
  then have "d \<in> {0, 1, 2, 3, 4, 5, 6, 7, 8, 9}" by auto
  then show ?thesis
    by (auto simp: digit_char_def)
qed

lemma decimal_value_snoc: "decimal_value (s @ [ch]) = 10 * decimal_value s + digit_value ch"
  by (simp add: decimal_value_def)

lemma decimal_value_nat_toString: "decimal_value (nat_toString n) = n"
proof (induction n rule: nat_toString.induct)
  case (1 n)
  show ?case
  proof (cases "n < 10")
    case True
    then show ?thesis
      by (subst nat_toString.simps) (simp add: decimal_value_def digit_value_digit_char)
  next
    case False
    then have "decimal_value (nat_toString n) =
        10 * decimal_value (nat_toString (n div 10)) + digit_value (digit_char (n mod 10))"
      by (subst nat_toString.simps) (simp add: decimal_value_snoc)
    then show ?thesis
      using "1.IH" False by (simp add: digit_value_digit_char)
  qed
qed

lemma nat_toString_head: "\<exists>d ds. nat_toString n = digit_char d # ds \<and> d < 10"
proof (induction n rule: nat_toString.induct)
  case (1 n)
  show ?case
  proof (cases "n < 10")
    case True
    then show ?thesis by (subst nat_toString.simps) auto
  next
    case False
    then obtain d ds where "nat_toString (n div 10) = digit_char d # ds" "d < 10"
      using "1.IH" by auto
    then show ?thesis using False by (subst nat_toString.simps) auto
  qed
qed

lemma read_integer_integer_toString: "read_integer (integer_toString n) = n"
proof (cases "n < 0")
  case True
  then show ?thesis
    by (simp add: integer_toString_def read_integer_def decimal_value_nat_toString)
next
  case False
  obtain d ds where head: "nat_toString (nat n) = digit_char d # ds" "d < 10"
    using nat_toString_head [of "nat n"] by auto
  have "int (decimal_value (nat_toString (nat n))) = n"
    using False by (simp add: decimal_value_nat_toString)
  then show ?thesis
    using False head digit_char_not_minus [of d]
    by (simp add: integer_toString_def read_integer_def)
qed

text \<open>
  C6. A decoded number is a ping: the client writes the pong, the encoding of the string
  \<open>~h~\<close> followed by the number as the template literal prints it, to the transport, then
  calls the ping observers and the catch-all observers with the number. Nothing else
  happens: no session handler is called and no observer of the \<open>logged\<close> or \<open>data\<close>
  channel. For a safe integer the printed number is its plain decimal text, the digits
  that read back as the number.
\<close>

theorem ping_is_answered_and_announced:
  "parsePacket_each P c (JNum n) =
     Inr (c\<lparr>trace := trace c
            @ WsSend (formatWSPacket P (JStr (''~h~'' @ number_toString P n)))
            # map (\<lambda>cb. Callback EvPing cb [JNum n]) (callbacks c EvPing)
            @ map (\<lambda>cb. Callback EvEvent cb [JStr ''ping'', JNum n]) (callbacks c EvEvent)\<rparr>)
   \<and> (safe_integer n \<longrightarrow>
        number_toString P n = integer_toString n \<and> read_integer (number_toString P n) = n)"
  by (simp add: parsePacket_each_def handleEvent_def ws_send_def perform_def number_toString_def
      read_integer_integer_toString)

text \<open>
  The spec's example: the ping 123 is answered with the frame \<^verbatim>\<open>~m~6~m~~h~123\<close>, and the
  ping observer and the catch-all observer of the example client are called with 123.
\<close>

theorem ping_is_answered_and_announced_witness:
  "safe_integer 123
   \<and> number_toString (example_protocol []) 123 = ''123''
   \<and> parsePacket_each (example_protocol []) example_client (JNum 123) =
       Inr (example_client\<lparr>trace := trace example_client @
              [WsSend ''~m~6~m~~h~123'', Callback EvPing 4 [JNum 123],
               Callback EvEvent 3 [JStr ''ping'', JNum 123]]\<rparr>)"
proof -
  have safe: "safe_integer 123"
    by (simp add: safe_integer_def)
  have digits: "integer_toString 123 = ''123''"
    by (simp add: integer_toString_def nat_toString.simps digit_char_def)
  have frame: "formatWSPacket (example_protocol []) (JStr ''~h~123'') = ''~m~6~m~~h~123''"
    by (simp add: example_protocol_def formatWSPacket_spec_def wrap_frame_def
        nat_toString.simps digit_char_def)
  show ?thesis
    using ping_is_answered_and_announced [of "example_protocol []" example_client 123] safe
    by (simp add: digits frame example_client_fields)
qed

section \<open>Messages and sessions\<close>

lemma first_element_truthy: "truthy (first_element p) \<Longrightarrow> truthy p"
  by (cases p rule: first_element.cases) simp_all

lemma filter_SessionOnData_handleEvent:
  "filter is_SessionOnData (trace (handleEvent c ev data)) = filter is_SessionOnData (trace c)"
  by (simp add: handleEvent_def filter_map comp_def)

lemma filter_SessionOnData_handleError:
  "filter is_SessionOnData (trace (handleError c msgs)) = filter is_SessionOnData (trace c)"
  by (simp add: handleError_def filter_SessionOnData_handleEvent)

lemma to_session_delivered:
  "to_session P c m p = Inr (Some c') \<Longrightarrow> truthy m \<and> truthy p \<and> truthy (first_element p)"
  by (auto simp: to_session_def Let_def split: if_splits option.splits lookup.splits)

lemma to_session_falsy:
  "\<not> (truthy m \<and> truthy p \<and> truthy (first_element p)) \<Longrightarrow> to_session P c m p = Inr None"
  by (auto simp: to_session_def Let_def)

lemma parsePacket_each_Message:
  "is_Message packet \<Longrightarrow> own_property packet ''m'' \<noteq> JStr ''protocol_error'' \<Longrightarrow>
   parsePacket_each P c packet =
     (case to_session P c (own_property packet ''m'') (own_property packet ''p'') of
        Inl e \<Rightarrow> Inl e
      | Inr (Some c') \<Rightarrow> Inr c'
      | Inr None \<Rightarrow> Inr (logged_or_data c packet))"
  by (cases packet) (auto simp: parsePacket_each_def)

lemma parsePacket_each_protocol_error:
  "is_Message packet \<Longrightarrow> own_property packet ''m'' = JStr ''protocol_error'' \<Longrightarrow>
   parsePacket_each P c packet =
     Inr (ws_close (handleError c [JStr ''Client critical error:'', own_property packet ''p'']))"
  by (cases packet) (simp_all add: parsePacket_each_def)

lemma parsePacket_each_session_calls:
  assumes "parsePacket_each P c packet = Inr c'"
    and "filter is_SessionOnData (trace c') \<noteq> filter is_SessionOnData (trace c)"
  shows "truthy (own_property packet ''m'') \<and> truthy (own_property packet ''p'')
         \<and> truthy (first_element (own_property packet ''p''))"
proof (cases packet)
  case (JNum n)
  then show ?thesis
    using assms by (auto simp: parsePacket_each_def ws_send_def filter_SessionOnData_handleEvent)
next
  case JUndefined
  then show ?thesis using assms by (simp add: parsePacket_each_def)
next
  case JNull
  then show ?thesis using assms by (simp add: parsePacket_each_def)
next
  case (JBool b)
  then show ?thesis
    using assms
    by (auto simp: parsePacket_each_def to_session_def logged_or_data_def
        filter_SessionOnData_handleEvent split: if_splits)
next
  case (JStr s)
  then show ?thesis
    using assms
    by (auto simp: parsePacket_each_def to_session_def logged_or_data_def
        filter_SessionOnData_handleEvent split: if_splits)
next
  case (JArr xs)
  then show ?thesis
    using assms
    by (auto simp: parsePacket_each_def to_session_def logged_or_data_def
        filter_SessionOnData_handleEvent split: if_splits)
next
  case (JObj kvs)
  show ?thesis
  proof (cases "own_property packet ''m'' = JStr ''protocol_error''")
    case True
    then show ?thesis
      using assms JObj
      by (auto simp: parsePacket_each_protocol_error filter_SessionOnData_handleError)
  next
    case False
    then show ?thesis
      using assms JObj to_session_delivered [of P c "own_property packet ''m''" "own_property packet ''p''"]
      by (auto simp: parsePacket_each_Message logged_or_data_def filter_SessionOnData_handleEvent
          split: sum.splits option.splits if_splits)
  qed
qed

text \<open>
  C1, as the code has it. A decoded Message whose type is truthy and is not
  \<open>protocol_error\<close>, and whose first payload element is a non-empty string under which a
  session is registered, is handed to that session's \<open>onData\<close> exactly once, as
  \<open>{type, data}\<close>, and nothing else happens: no observer of any channel is called.
\<close>

theorem message_for_registered_session:
  assumes "is_Message packet"
    and "own_property packet ''m'' = m" and "own_property packet ''p'' = p"
    and "truthy m" and "m \<noteq> JStr ''protocol_error''"
    and "first_element p = JStr key" and "key \<noteq> []"
    and "sessions c key = Some s"
  shows "parsePacket_each P c packet =
           Inr (c\<lparr>trace := trace c @ [SessionOnData key s (JObj [(''type'', m), (''data'', p)])]\<rparr>)"
proof -
  have p: "truthy p" using assms(6,7) first_element_truthy [of p] by simp
  have "to_session P c m p = Inr (Some (perform c (SessionOnData key s (JObj [(''type'', m), (''data'', p)]))))"
    using assms p by (simp add: to_session_def sessions_lookup_def)
  then show ?thesis
    using assms by (cases packet) (simp_all add: parsePacket_each_def perform_def)
qed


theorem message_for_registered_session_witness:
  "sessions example_client ''qs_1'' = Some quote_session
   \<and> parsePacket_each (example_protocol []) example_client quote_packet =
       Inr (example_client\<lparr>trace := trace example_client @
              [SessionOnData ''qs_1'' quote_session
                 (JObj [(''type'', JStr ''qsd''), (''data'', JArr [JStr ''qs_1'', JObj []])])]\<rparr>)"
  using message_for_registered_session
    [of quote_packet "JStr ''qsd''" "JArr [JStr ''qs_1'', JObj []]" "''qs_1''"
        example_client quote_session "example_protocol []"]
  by (simp add: quote_packet_def example_client_fields)

text \<open>
  C1 as stated fails: a Message with the empty type whose first payload element is the
  registered key \<open>qs_1\<close>, and a Message whose first payload element is the empty string
  with a session registered under the empty key, both go to the data observers and to no
  session handler; a \<open>protocol_error\<close> whose first payload element is \<open>qs_1\<close> is
  reported as an error and closes the transport, and no session handler is called.
\<close>

theorem registered_key_not_always_delivered:
  "sessions example_client ''qs_1'' = Some quote_session
   \<and> parsePacket_each (example_protocol []) example_client
         (JObj [(''m'', JStr []), (''p'', JArr [JStr ''qs_1''])]) =
       Inr (example_client\<lparr>trace := trace example_client @
              [Callback EvData 2 [JObj [(''m'', JStr []), (''p'', JArr [JStr ''qs_1''])]],
               Callback EvEvent 3 [JStr ''data'', JObj [(''m'', JStr []), (''p'', JArr [JStr ''qs_1''])]]]\<rparr>)
   \<and> sessions example_client [] = Some quote_session
   \<and> parsePacket_each (example_protocol []) example_client
         (JObj [(''m'', JStr ''qsd''), (''p'', JArr [JStr []])]) =
       Inr (example_client\<lparr>trace := trace example_client @
              [Callback EvData 2 [JObj [(''m'', JStr ''qsd''), (''p'', JArr [JStr []])]],
               Callback EvEvent 3 [JStr ''data'', JObj [(''m'', JStr ''qsd''), (''p'', JArr [JStr []])]]]\<rparr>)
   \<and> parsePacket_each (example_protocol []) example_client
         (JObj [(''m'', JStr ''protocol_error''), (''p'', JArr [JStr ''qs_1''])]) =
       Inr (example_client\<lparr>readyState := CLOSING, trace := trace example_client @
              [Callback EvError 5 [JStr ''Client critical error:'', JArr [JStr ''qs_1'']],
               Callback EvEvent 3 [JStr ''error'', JStr ''Client critical error:'', JArr [JStr ''qs_1'']],
               WsClose]\<rparr>)"
  by (simp add: example_client_fields parsePacket_each_def to_session_def logged_or_data_def
      handleEvent_def handleError_def ws_close_def perform_def)

text \<open>
  C10, as the code has it. A session handler is called only for a packet whose \<open>m\<close>,
  whose \<open>p\<close> and whose first payload element are all truthy. A Message other than
  \<open>protocol_error\<close> for which one of the three is falsy falls through, whatever the
  registry holds: its whole effect is the call of the \<open>data\<close> observers and the catch-all
  observers with the packet when the authenticated flag is up, and of the \<open>logged\<close>
  observers and the catch-all observers when it is down. The empty string and the number
  0 are falsy, so a session registered under the empty key or under \<open>0\<close> never receives
  such a Message.
\<close>

theorem session_delivery_requires_truthiness:
  "(parsePacket_each P c packet = Inr c' \<longrightarrow>
      filter is_SessionOnData (trace c') \<noteq> filter is_SessionOnData (trace c) \<longrightarrow>
      truthy (own_property packet ''m'') \<and> truthy (own_property packet ''p'')
      \<and> truthy (first_element (own_property packet ''p'')))
   \<and> (is_Message packet \<longrightarrow> own_property packet ''m'' \<noteq> JStr ''protocol_error'' \<longrightarrow>
        \<not> (truthy (own_property packet ''m'') \<and> truthy (own_property packet ''p'')
           \<and> truthy (first_element (own_property packet ''p''))) \<longrightarrow>
        parsePacket_each P c packet =
          Inr (c\<lparr>trace := trace c @
                 (if logged c
                  then map (\<lambda>cb. Callback EvData cb [packet]) (callbacks c EvData)
                     @ map (\<lambda>cb. Callback EvEvent cb [JStr ''data'', packet]) (callbacks c EvEvent)
                  else map (\<lambda>cb. Callback EvLogged cb [packet]) (callbacks c EvLogged)
                     @ map (\<lambda>cb. Callback EvEvent cb [JStr ''logged'', packet]) (callbacks c EvEvent))\<rparr>))
   \<and> \<not> truthy (JStr []) \<and> \<not> truthy (JNum 0)"
  using parsePacket_each_session_calls [of P c packet c']
    to_session_falsy [of "own_property packet ''m''" "own_property packet ''p''" P c]
  by (simp add: parsePacket_each_Message logged_or_data_def handleEvent_def)

theorem session_delivery_requires_truthiness_witness:
  "sessions example_client [] = Some quote_session
   \<and> parsePacket_each (example_protocol []) example_client
         (JObj [(''m'', JStr ''qsd''), (''p'', JArr [JStr []])]) =
       Inr (example_client\<lparr>trace := trace example_client @
              [Callback EvData 2 [JObj [(''m'', JStr ''qsd''), (''p'', JArr [JStr []])]],
               Callback EvEvent 3 [JStr ''data'', JObj [(''m'', JStr ''qsd''), (''p'', JArr [JStr []])]]]\<rparr>)
   \<and> sessions example_client ''0'' = Some quote_session
   \<and> parsePacket_each (example_protocol []) example_client
         (JObj [(''m'', JStr ''qsd''), (''p'', JArr [JNum 0])]) =
       Inr (example_client\<lparr>trace := trace example_client @
              [Callback EvData 2 [JObj [(''m'', JStr ''qsd''), (''p'', JArr [JNum 0])]],
               Callback EvEvent 3 [JStr ''data'', JObj [(''m'', JStr ''qsd''), (''p'', JArr [JNum 0])]]]\<rparr>)
   \<and> parsePacket_each (example_protocol []) example_client quote_packet =
       Inr (perform example_client
              (SessionOnData ''qs_1'' quote_session
                 (JObj [(''type'', JStr ''qsd''), (''data'', JArr [JStr ''qs_1'', JObj []])])))
   \<and> truthy (own_property quote_packet ''m'') \<and> truthy (own_property quote_packet ''p'')
   \<and> truthy (first_element (own_property quote_packet ''p''))"
proof -
  let ?P = "example_protocol []"
  let ?delivered = "perform example_client
      (SessionOnData ''qs_1'' quote_session
         (JObj [(''type'', JStr ''qsd''), (''data'', JArr [JStr ''qs_1'', JObj []])]))"
  have delivered: "parsePacket_each ?P example_client quote_packet = Inr ?delivered"
    by (simp add: quote_packet_def example_client_fields parsePacket_each_def to_session_def
        sessions_lookup_def)
  have calls: "filter is_SessionOnData (trace ?delivered) \<noteq> filter is_SessionOnData (trace example_client)"
    by simp
  show ?thesis
    using delivered calls
      session_delivery_requires_truthiness
        [of ?P example_client quote_packet ?delivered]
      session_delivery_requires_truthiness
        [of ?P example_client "JObj [(''m'', JStr ''qsd''), (''p'', JArr [JStr []])]" example_client]
      session_delivery_requires_truthiness
        [of ?P example_client "JObj [(''m'', JStr ''qsd''), (''p'', JArr [JNum 0])]" example_client]
    by (simp add: example_client_fields)
qed

text \<open>
  C10 as stated fails: a \<open>protocol_error\<close> whose first payload element is the empty
  string, with a session registered under the empty key, does not fall through to the
  logged-or-data branch. It is reported as an error and the transport is asked to close;
  no \<open>logged\<close> or \<open>data\<close> observer is called.
\<close>

theorem falsy_element_of_protocol_error_is_not_logged_or_data:
  "sessions example_client [] = Some quote_session
   \<and> first_element (own_property (JObj [(''m'', JStr ''protocol_error''), (''p'', JArr [JStr []])]) ''p'') = JStr []
   \<and> parsePacket_each (example_protocol []) example_client
         (JObj [(''m'', JStr ''protocol_error''), (''p'', JArr [JStr []])]) =
       Inr (example_client\<lparr>readyState := CLOSING, trace := trace example_client @
              [Callback EvError 5 [JStr ''Client critical error:'', JArr [JStr []]],
               Callback EvEvent 3 [JStr ''error'', JStr ''Client critical error:'', JArr [JStr []]],
               WsClose]\<rparr>)"
  by (simp add: example_client_fields parsePacket_each_def handleEvent_def handleError_def
      ws_close_def perform_def)

section \<open>Names the registry inherits\<close>

text \<open>
  C7 at a Message whose first payload element names a property every plain object
  inherits: nothing is registered under \<open>constructor\<close>, yet the lookup finds the inherited
  function, the call of its missing \<open>onData\<close> throws, and the exception leaves the
  transport's listener; neither the \<open>logged\<close> nor the \<open>data\<close> observers are called.
\<close>

theorem inherited_registry_name_throws:
  "sessions example_client ''constructor'' = None
   \<and> parsePacket_each (example_protocol []) example_client inherited_name_packet = Inl TypeError
   \<and> ws_on_message
         (example_protocol [(formatWSPacket_spec inherited_name_packet, [inherited_name_packet])])
         example_client (formatWSPacket_spec inherited_name_packet) =
       example_client\<lparr>trace := trace example_client @ [Uncaught TypeError]\<rparr>"
  by (simp add: example_client_fields inherited_name_packet_def parsePacket_each_def
      to_session_def sessions_lookup_def Object_prototype_names_def ws_on_message_def
      parsePacket_def isOpen_def example_protocol_def table_decoder_def perform_def)

text \<open>
  Away from such names the fall-through is as C7 says: a Message other than
  \<open>protocol_error\<close> that no session took is dispatched on \<open>logged\<close> while the
  authenticated flag is down and on \<open>data\<close> once it is up.
\<close>

lemma unrouted_message_is_logged_or_data:
  assumes "is_Message packet" and "own_property packet ''m'' \<noteq> JStr ''protocol_error''"
    and "to_session P c (own_property packet ''m'') (own_property packet ''p'') = Inr None"
  shows "parsePacket_each P c packet =
           Inr (if \<not> logged c then handleEvent c EvLogged [packet]
                else handleEvent c EvData [packet])"
  using assms by (simp add: parsePacket_each_Message logged_or_data_def)

section \<open>Protocol errors inside a batch\<close>

lemma forEach_packet_append:
  "forEach_packet P c before = Inr c1 \<Longrightarrow>
   forEach_packet P c (before @ rest) = forEach_packet P c1 rest"
  by (induction before arbitrary: c) (auto split: sum.splits)

lemma to_session_readyState:
  "to_session P c m p = Inr (Some c') \<Longrightarrow> readyState c' = readyState c"
  by (auto simp: to_session_def Let_def split: if_splits option.splits lookup.splits)

lemma parsePacket_each_not_closed:
  assumes "parsePacket_each P c packet = Inr c'" and "readyState c \<noteq> CLOSED"
  shows "readyState c' \<noteq> CLOSED"
proof (cases packet)
  case (JNum n)
  then show ?thesis using assms by (auto simp: parsePacket_each_def ws_send_def)
next
  case (JObj kvs)
  then show ?thesis
    using assms to_session_readyState [of P c "own_property packet ''m''" "own_property packet ''p''" c']
    by (cases "own_property packet ''m'' = JStr ''protocol_error''")
       (auto simp: parsePacket_each_protocol_error parsePacket_each_Message logged_or_data_def
          ws_close_def split: sum.splits option.splits if_splits)
qed (use assms in \<open>auto simp: parsePacket_each_def to_session_def logged_or_data_def split: if_splits\<close>)

lemma forEach_packet_not_closed:
  "forEach_packet P c packets = Inr c' \<Longrightarrow> readyState c \<noteq> CLOSED \<Longrightarrow> readyState c' \<noteq> CLOSED"
proof (induction packets arbitrary: c)
  case Nil
  then show ?case by simp
next
  case (Cons packet packets)
  then obtain c1 where step: "parsePacket_each P c packet = Inr c1"
    and rest: "forEach_packet P c1 packets = Inr c'"
    by (auto split: sum.splits)
  have "readyState c1 \<noteq> CLOSED"
    using step Cons.prems(2) by (rule parsePacket_each_not_closed)
  then show ?case using rest by (rule Cons.IH [rotated])
qed

lemma report_and_close:
  "readyState c \<noteq> CLOSED \<Longrightarrow>
   ws_close (handleError c msgs) =
     c\<lparr>readyState := CLOSING,
       trace := trace c @
         (if callbacks c EvError = [] then [ConsoleError msgs]
          else map (\<lambda>cb. Callback EvError cb msgs) (callbacks c EvError)
             @ map (\<lambda>cb. Callback EvEvent cb (JStr ''error'' # msgs)) (callbacks c EvEvent))
         @ [WsClose]\<rparr>"
  by (simp add: ws_close_def handleError_def handleEvent_def perform_def)

text \<open>
  C2, as the code has it. In a batch decoded while the transport is open, a Message of type
  \<open>protocol_error\<close> that the loop reaches has exactly this effect: one error report, with
  the text \<open>Client critical error:\<close> and the payload, which goes to the diagnostic output
  when no error observer is registered and otherwise to every error observer and then to
  every catch-all observer; then one close call on the transport, which is \<open>CLOSING\<close>
  from there on. No session handler and no \<open>logged\<close>, \<open>data\<close> or \<open>ping\<close> observer is
  called for the frame. The loop does not stop there: the frames after it are handled one
  by one, in order, from that state.
\<close>

theorem protocol_error_reports_closes_and_goes_on:
  assumes "isOpen c" and "parseWSPacket P str = before @ packet # rest"
    and "forEach_packet P c before = Inr c1"
    and "is_Message packet" and "own_property packet ''m'' = JStr ''protocol_error''"
  shows "parsePacket P c str =
           forEach_packet P
             (c1\<lparr>readyState := CLOSING,
                 trace := trace c1 @
                   (if callbacks c1 EvError = []
                    then [ConsoleError [JStr ''Client critical error:'', own_property packet ''p'']]
                    else map (\<lambda>cb. Callback EvError cb
                                [JStr ''Client critical error:'', own_property packet ''p''])
                           (callbacks c1 EvError)
                       @ map (\<lambda>cb. Callback EvEvent cb
                                [JStr ''error'', JStr ''Client critical error:'', own_property packet ''p''])
                           (callbacks c1 EvEvent))
                   @ [WsClose]\<rparr>)
             rest"
proof -
  have "readyState c1 \<noteq> CLOSED"
    using assms(3) assms(1) by (intro forEach_packet_not_closed [of P c before c1]) (simp_all add: isOpen_def)
  then have effect: "ws_close (handleError c1 [JStr ''Client critical error:'', own_property packet ''p'']) =
      c1\<lparr>readyState := CLOSING,
         trace := trace c1 @
           (if callbacks c1 EvError = []
            then [ConsoleError [JStr ''Client critical error:'', own_property packet ''p'']]
            else map (\<lambda>cb. Callback EvError cb
                        [JStr ''Client critical error:'', own_property packet ''p''])
                   (callbacks c1 EvError)
               @ map (\<lambda>cb. Callback EvEvent cb
                        [JStr ''error'', JStr ''Client critical error:'', own_property packet ''p''])
                   (callbacks c1 EvEvent))
           @ [WsClose]\<rparr>"
    by (simp add: report_and_close)
  have "parsePacket P c str = forEach_packet P c1 (packet # rest)"
    using assms(1-3) by (simp add: parsePacket_def forEach_packet_append)
  then show ?thesis
    using assms(4,5) effect by (simp add: parsePacket_each_protocol_error)
qed

lemma example_batch_after_error:
  "forEach_packet batch_protocol
     (ws_close (handleError example_client [JStr ''Client critical error:'', JArr [JStr ''bad session'']]))
     [quote_packet, data_packet, JNum 5] =
   Inr (example_client\<lparr>readyState := CLOSING, trace := trace example_client @
          [Callback EvError 5 [JStr ''Client critical error:'', JArr [JStr ''bad session'']],
           Callback EvEvent 3 [JStr ''error'', JStr ''Client critical error:'', JArr [JStr ''bad session'']],
           WsClose,
           SessionOnData ''qs_1'' quote_session
             (JObj [(''type'', JStr ''qsd''), (''data'', JArr [JStr ''qs_1'', JObj []])]),
           Callback EvData 2 [data_packet],
           Callback EvEvent 3 [JStr ''data'', data_packet],
           WsSend ''~m~4~m~~h~5'',
           Callback EvPing 4 [JNum 5],
           Callback EvEvent 3 [JStr ''ping'', JNum 5]]\<rparr>)"
  by (simp add: example_client_eq quote_packet_def data_packet_def parsePacket_each_def
      to_session_def sessions_lookup_def Object_prototype_names_def logged_or_data_def
      handleEvent_def handleError_def ws_close_def ws_send_def perform_def
      batch_protocol_def example_protocol_def formatWSPacket_spec_def wrap_frame_def
      number_toString_def safe_integer_def integer_toString_def nat_toString.simps digit_char_def)

theorem protocol_error_reports_closes_and_goes_on_witness:
  "isOpen example_client
   \<and> parseWSPacket batch_protocol example_batch_text = [] @ protocol_error_packet # [quote_packet, data_packet, JNum 5]
   \<and> parsePacket batch_protocol example_client example_batch_text =
       forEach_packet batch_protocol
         (example_client\<lparr>readyState := CLOSING, trace := trace example_client @
            [Callback EvError 5 [JStr ''Client critical error:'', JArr [JStr ''bad session'']],
             Callback EvEvent 3 [JStr ''error'', JStr ''Client critical error:'', JArr [JStr ''bad session'']],
             WsClose]\<rparr>)
         [quote_packet, data_packet, JNum 5]"
proof -
  have opened: "isOpen example_client"
    by (simp add: isOpen_def example_client_fields)
  have decoded: "parseWSPacket batch_protocol example_batch_text =
      [] @ protocol_error_packet # [quote_packet, data_packet, JNum 5]"
    by (simp add: batch_protocol_def example_protocol_def table_decoder_def example_batch_def)
  have before: "forEach_packet batch_protocol example_client [] = Inr example_client"
    by simp
  have msg: "is_Message protocol_error_packet"
    and m: "own_property protocol_error_packet ''m'' = JStr ''protocol_error''"
    and p: "own_property protocol_error_packet ''p'' = JArr [JStr ''bad session'']"
    by (simp_all add: protocol_error_packet_def)
  show ?thesis
    using protocol_error_reports_closes_and_goes_on [OF opened decoded before msg m] opened decoded
    by (simp add: p example_client_fields)
qed

text \<open>
  C2 as stated fails: in the batch of a \<open>protocol_error\<close>, a quote packet for the
  registered session \<open>qs_1\<close>, a data packet and a ping, the three frames after the error
  are all routed, after the close call: to the session handler, to the data observers and
  to the ping observers, with the pong written to the transport.
\<close>

theorem frames_after_protocol_error_are_routed:
  "parseWSPacket batch_protocol example_batch_text =
     [protocol_error_packet, quote_packet, data_packet, JNum 5]
   \<and> parsePacket batch_protocol example_client example_batch_text =
       Inr (example_client\<lparr>readyState := CLOSING, trace := trace example_client @
          [Callback EvError 5 [JStr ''Client critical error:'', JArr [JStr ''bad session'']],
           Callback EvEvent 3 [JStr ''error'', JStr ''Client critical error:'', JArr [JStr ''bad session'']],
           WsClose,
           SessionOnData ''qs_1'' quote_session
             (JObj [(''type'', JStr ''qsd''), (''data'', JArr [JStr ''qs_1'', JObj []])]),
           Callback EvData 2 [data_packet],
           Callback EvEvent 3 [JStr ''data'', data_packet],
           WsSend ''~m~4~m~~h~5'',
           Callback EvPing 4 [JNum 5],
           Callback EvEvent 3 [JStr ''ping'', JNum 5]]\<rparr>)"
proof -
  have decoded: "parseWSPacket batch_protocol example_batch_text =
      [protocol_error_packet, quote_packet, data_packet, JNum 5]"
    by (simp add: batch_protocol_def example_protocol_def table_decoder_def example_batch_def)
  have first: "parsePacket_each batch_protocol example_client protocol_error_packet =
      Inr (ws_close (handleError example_client [JStr ''Client critical error:'', JArr [JStr ''bad session'']]))"
    by (simp add: parsePacket_each_protocol_error protocol_error_packet_def)
  have "parsePacket batch_protocol example_client example_batch_text =
      forEach_packet batch_protocol
        (ws_close (handleError example_client [JStr ''Client critical error:'', JArr [JStr ''bad session'']]))
        [quote_packet, data_packet, JNum 5]"
    by (simp add: parsePacket_def isOpen_def example_client_fields decoded first)
  then show ?thesis
    using decoded example_batch_after_error by simp
qed

section \<open>Waiting for the credential exchange\<close>

lemma to_session_keeps:
  "to_session P c m p = Inr (Some c') \<Longrightarrow> logged c' = logged c \<and> send_queue c' = send_queue c"
  by (auto simp: to_session_def Let_def split: if_splits option.splits lookup.splits)

lemma logged_or_data_keeps:
  "logged (logged_or_data c packet) = logged c"
  "send_queue (logged_or_data c packet) = send_queue c"
  by (simp_all add: logged_or_data_def)

lemma parsePacket_each_keeps:
  assumes "parsePacket_each P c packet = Inr c'"
  shows "logged c' = logged c \<and> send_queue c' = send_queue c"
proof (cases packet)
  case (JNum n)
  then show ?thesis using assms by (auto simp: parsePacket_each_def ws_send_def)
next
  case (JObj kvs)
  then show ?thesis
    using assms to_session_keeps [of P c "own_property packet ''m''" "own_property packet ''p''" c']
    by (cases "own_property packet ''m'' = JStr ''protocol_error''")
       (auto simp: parsePacket_each_protocol_error parsePacket_each_Message logged_or_data_keeps
          split: sum.splits option.splits)
qed (use assms in \<open>auto simp: parsePacket_each_def to_session_def logged_or_data_keeps split: if_splits\<close>)

lemma forEach_packet_keeps:
  "forEach_packet P c packets = Inr c' \<or> forEach_packet P c packets = Inl (e, c') \<Longrightarrow>
   logged c' = logged c \<and> send_queue c' = send_queue c"
proof (induction packets arbitrary: c)
  case Nil
  then show ?case by simp
next
  case (Cons packet packets)
  show ?case
  proof (cases "parsePacket_each P c packet")
    case (Inl err)
    then show ?thesis using Cons.prems by auto
  next
    case (Inr c1)
    then have "forEach_packet P c1 packets = Inr c' \<or> forEach_packet P c1 packets = Inl (e, c')"
      using Cons.prems by simp
    then have "logged c' = logged c1 \<and> send_queue c' = send_queue c1"
      by (rule Cons.IH)
    then show ?thesis using parsePacket_each_keeps [OF Inr] by simp
  qed
qed

lemma ws_on_message_keeps:
  "logged (ws_on_message P c data) = logged c \<and> send_queue (ws_on_message P c data) = send_queue c"
proof (cases "parsePacket P c data")
  case (Inl failed)
  obtain e c' where failed: "failed = (e, c')" by (cases failed)
  then have "forEach_packet P c (parseWSPacket P data) = Inl (e, c')"
    using Inl by (auto simp: parsePacket_def split: if_splits)
  then have "logged c' = logged c \<and> send_queue c' = send_queue c"
    using forEach_packet_keeps [of P c "parseWSPacket P data" c' e] by simp
  then show ?thesis using Inl failed by (simp add: ws_on_message_def)
next
  case (Inr c')
  then have "c' = c \<or> forEach_packet P c (parseWSPacket P data) = Inr c'"
    by (auto simp: parsePacket_def split: if_splits)
  then have "logged c' = logged c \<and> send_queue c' = send_queue c"
    using forEach_packet_keeps [of P c "parseWSPacket P data" c'] by auto
  then show ?thesis using Inr by (simp add: ws_on_message_def)
qed

lemma queued_Cons: "queued P (i # inputs) = queued P [i] @ queued P inputs"
  by (cases i) simp_all

lemma queued_append: "queued P (xs @ ys) = queued P xs @ queued P ys"
proof (induction xs)
  case Nil
  then show ?case by simp
next
  case (Cons i xs)
  then show ?case using queued_Cons [of P i "xs @ ys"] queued_Cons [of P i xs] by simp
qed

lemma react_while_pending:
  assumes "\<not> logged c" and "\<not> resolves i"
  shows "\<not> logged (react P c i) \<and> send_queue (react P c i) = send_queue c @ queued P [i]"
proof (cases i)
  case (SocketMessage data)
  then show ?thesis using assms ws_on_message_keeps [of P c data] by simp
next
  case (GetUserResolved authToken)
  then show ?thesis using assms by simp
qed (use assms in \<open>simp_all add: send_def sendQueue_gated end_client_def register_def
      ws_on_open_def ws_on_close_def ws_on_error_def getUser_catch_def\<close>)

lemma run_while_pending:
  "\<not> logged c \<Longrightarrow> \<not> list_ex resolves inputs \<Longrightarrow>
   \<not> logged (run P c inputs) \<and> send_queue (run P c inputs) = send_queue c @ queued P inputs"
proof (induction inputs arbitrary: c)
  case Nil
  then show ?case by (simp add: run_Nil)
next
  case (Cons i inputs)
  have step: "\<not> logged (react P c i) \<and> send_queue (react P c i) = send_queue c @ queued P [i]"
    using Cons.prems by (intro react_while_pending) simp_all
  have "\<not> logged (run P (react P c i) inputs)
        \<and> send_queue (run P (react P c i) inputs) = send_queue (react P c i) @ queued P inputs"
    using step Cons.prems by (intro Cons.IH) simp_all
  then show ?case
    using step queued_Cons [of P i inputs] by (simp add: run_Cons)
qed

lemma constructor_with_token:
  "option_truthy (token opts) \<Longrightarrow>
   \<not> logged (constructor P opts) \<and> send_queue (constructor P opts) = []"
  by (simp add: constructor_def new_client_def)

lemma pending_client:
  assumes "option_truthy (token opts)" and "\<not> list_ex resolves pending"
  shows "\<not> logged (run P (constructor P opts) pending)"
    and "send_queue (run P (constructor P opts) pending) = queued P pending"
  using run_while_pending [of "constructor P opts" pending P] constructor_with_token [OF assms(1), of P]
    assms(2) by simp_all



lemma pending_inputs_unresolved: "\<not> list_ex resolves pending_inputs"
  by (simp add: pending_inputs_def)

lemma queued_pending_inputs:
  "queued P pending_inputs =
     [send_frame P (JStr ''quote_create_session'') (JArr [JStr ''qs_1'']),
      send_frame P (JStr ''quote_add_symbols'') (JArr [JStr ''qs_1'', JStr ''BTCUSD''])]"
  by (simp add: pending_inputs_def)

lemma pending_client_eq:
  "run login_protocol (constructor login_protocol with_token) pending_inputs =
     \<lparr>readyState = OPEN, logged = False, sessions = Map.empty, callbacks = (\<lambda>ev. []),
      send_queue =
        [send_frame login_protocol (JStr ''quote_create_session'') (JArr [JStr ''qs_1'']),
         send_frame login_protocol (JStr ''quote_add_symbols'') (JArr [JStr ''qs_1'', JStr ''BTCUSD''])],
      trace = [GetUser ''sessionid'' [] JUndefined]\<rparr>"
  by (simp add: pending_inputs_def run_Cons run_Nil constructor_def with_token_def
      option_truthy_def option_string_def new_client_def perform_def send_def sendQueue_gated
      isOpen_def ws_on_open_def handleEvent_def ws_on_message_def parsePacket_def
      login_protocol_def example_protocol_def table_decoder_def parsePacket_each_def
      to_session_def logged_or_data_def login_packet_def)


section \<open>When the authenticated flag goes up\<close>



section \<open>Rejected credentials\<close>

text \<open>
  C8. When the credential exchange of a client built with a token rejects, the rejection
  is reported once, as \<open>Credentials error:\<close> with the error's message: on the diagnostic
  output when no error observer is registered, and otherwise to every error observer and
  then to every catch-all observer; the report changes nothing else. From then on the
  authenticated flag is never up, whatever inputs follow (a settled exchange does not
  resolve later), and the queue is never flushed: it holds the frames of all the
  \<open>send\<close> calls ever made, in call order, and every further \<open>send\<close> only appends its frame.
\<close>

theorem rejected_credentials_never_flush:
  assumes "option_truthy (token opts)"
    and "\<not> list_ex resolves before" and "\<not> list_ex resolves after"
  shows "let c1 = run P (constructor P opts) before;
             c2 = react P c1 (GetUserRejected message);
             c3 = run P c2 after
         in c2 = c1\<lparr>trace := trace c1 @
                   (if callbacks c1 EvError = []
                    then [ConsoleError [JStr ''Credentials error:'', message]]
                    else map (\<lambda>cb. Callback EvError cb [JStr ''Credentials error:'', message])
                           (callbacks c1 EvError)
                       @ map (\<lambda>cb. Callback EvEvent cb [JStr ''error'', JStr ''Credentials error:'', message])
                           (callbacks c1 EvEvent))\<rparr>
            \<and> \<not> logged c3
            \<and> send_queue c3 = queued P (before @ after)
            \<and> send P c3 t p = c3\<lparr>send_queue := send_queue c3 @ [send_frame P t p]\<rparr>"
proof -
  define c1 where "c1 = run P (constructor P opts) before"
  define c2 where "c2 = react P c1 (GetUserRejected message)"
  define c3 where "c3 = run P c2 after"
  have c1: "\<not> logged c1" "send_queue c1 = queued P before"
    unfolding c1_def using assms(1,2) by (rule pending_client)+
  have report: "c2 = c1\<lparr>trace := trace c1 @
      (if callbacks c1 EvError = []
       then [ConsoleError [JStr ''Credentials error:'', message]]
       else map (\<lambda>cb. Callback EvError cb [JStr ''Credentials error:'', message])
              (callbacks c1 EvError)
          @ map (\<lambda>cb. Callback EvEvent cb [JStr ''error'', JStr ''Credentials error:'', message])
              (callbacks c1 EvEvent))\<rparr>"
    by (simp add: c2_def getUser_catch_def handleError_def handleEvent_def perform_def)
  have c2: "\<not> logged c2" "send_queue c2 = queued P before"
    using c1 by (simp_all add: report)
  have c3: "\<not> logged c3 \<and> send_queue c3 = send_queue c2 @ queued P after"
    unfolding c3_def using c2(1) assms(3) by (rule run_while_pending)
  have "send P c3 t p = c3\<lparr>send_queue := send_queue c3 @ [send_frame P t p]\<rparr>"
    using c3 by (simp add: send_def sendQueue_gated)
  then show ?thesis
    using report c2 c3 unfolding Let_def c3_def c2_def c1_def
    by (simp add: queued_append)
qed

lemma observed_inputs_unresolved: "\<not> list_ex resolves (pending_inputs @ [CallOn EvError 5, CallOn EvEvent 3])"
  by (simp add: pending_inputs_def)

lemma run_append: "run P c (xs @ ys) = run P (run P c xs) ys"
  by (simp add: run_def)

lemma observed_client_eq:
  "run login_protocol (constructor login_protocol with_token)
     (pending_inputs @ [CallOn EvError 5, CallOn EvEvent 3]) =
   (run login_protocol (constructor login_protocol with_token) pending_inputs)
     \<lparr>callbacks := (\<lambda>ev. [])(EvError := [5], EvEvent := [3])\<rparr>"
  by (simp add: run_append pending_client_eq run_Cons run_Nil register_def)

theorem rejected_credentials_never_flush_witness:
  "option_truthy (token with_token) \<and> \<not> list_ex resolves pending_inputs
   \<and> \<not> list_ex resolves [SocketError (JStr ''ECONNRESET''), CallSend (JStr ''ping'') JUndefined]
   \<and> trace (react login_protocol
              (run login_protocol (constructor login_protocol with_token) pending_inputs)
              (GetUserRejected (JStr ''Wrong or expired sessionid/signature''))) =
       [GetUser ''sessionid'' [] JUndefined,
        ConsoleError [JStr ''Credentials error:'', JStr ''Wrong or expired sessionid/signature'']]
   \<and> trace (react login_protocol
              (run login_protocol (constructor login_protocol with_token)
                 (pending_inputs @ [CallOn EvError 5, CallOn EvEvent 3]))
              (GetUserRejected (JStr ''Wrong or expired sessionid/signature''))) =
       [GetUser ''sessionid'' [] JUndefined,
        Callback EvError 5 [JStr ''Credentials error:'', JStr ''Wrong or expired sessionid/signature''],
        Callback EvEvent 3 [JStr ''error'', JStr ''Credentials error:'',
                            JStr ''Wrong or expired sessionid/signature'']]
   \<and> \<not> logged
        (run login_protocol
           (react login_protocol
              (run login_protocol (constructor login_protocol with_token) pending_inputs)
              (GetUserRejected (JStr ''Wrong or expired sessionid/signature'')))
           [SocketError (JStr ''ECONNRESET''), CallSend (JStr ''ping'') JUndefined])
   \<and> send_queue
        (run login_protocol
           (react login_protocol
              (run login_protocol (constructor login_protocol with_token) pending_inputs)
              (GetUserRejected (JStr ''Wrong or expired sessionid/signature'')))
           [SocketError (JStr ''ECONNRESET''), CallSend (JStr ''ping'') JUndefined]) =
       [send_frame login_protocol (JStr ''quote_create_session'') (JArr [JStr ''qs_1'']),
        send_frame login_protocol (JStr ''quote_add_symbols'') (JArr [JStr ''qs_1'', JStr ''BTCUSD'']),
        send_frame login_protocol (JStr ''ping'') JUndefined]"
proof -
  have tok: "option_truthy (token with_token)"
    by (simp add: with_token_def option_truthy_def)
  have later: "\<not> list_ex resolves [SocketError (JStr ''ECONNRESET''), CallSend (JStr ''ping'') JUndefined]"
    by simp
  have none: "\<not> list_ex resolves []"
    by simp
  have plain: "trace (react login_protocol
        (run login_protocol (constructor login_protocol with_token) pending_inputs)
        (GetUserRejected (JStr ''Wrong or expired sessionid/signature''))) =
      [GetUser ''sessionid'' [] JUndefined,
       ConsoleError [JStr ''Credentials error:'', JStr ''Wrong or expired sessionid/signature'']]
    \<and> \<not> logged
        (run login_protocol
           (react login_protocol
              (run login_protocol (constructor login_protocol with_token) pending_inputs)
              (GetUserRejected (JStr ''Wrong or expired sessionid/signature'')))
           [SocketError (JStr ''ECONNRESET''), CallSend (JStr ''ping'') JUndefined])
    \<and> send_queue
        (run login_protocol
           (react login_protocol
              (run login_protocol (constructor login_protocol with_token) pending_inputs)
              (GetUserRejected (JStr ''Wrong or expired sessionid/signature'')))
           [SocketError (JStr ''ECONNRESET''), CallSend (JStr ''ping'') JUndefined]) =
       [send_frame login_protocol (JStr ''quote_create_session'') (JArr [JStr ''qs_1'']),
        send_frame login_protocol (JStr ''quote_add_symbols'') (JArr [JStr ''qs_1'', JStr ''BTCUSD'']),
        send_frame login_protocol (JStr ''ping'') JUndefined]"
    using rejected_credentials_never_flush
      [OF tok pending_inputs_unresolved later, of login_protocol
          "JStr ''Wrong or expired sessionid/signature''" JUndefined JUndefined]
    by (simp add: Let_def queued_append queued_pending_inputs pending_client_eq
        getUser_catch_def handleError_def handleEvent_def perform_def)
  have observed: "trace (react login_protocol
        (run login_protocol (constructor login_protocol with_token)
           (pending_inputs @ [CallOn EvError 5, CallOn EvEvent 3]))
        (GetUserRejected (JStr ''Wrong or expired sessionid/signature''))) =
      [GetUser ''sessionid'' [] JUndefined,
       Callback EvError 5 [JStr ''Credentials error:'', JStr ''Wrong or expired sessionid/signature''],
       Callback EvEvent 3 [JStr ''error'', JStr ''Credentials error:'',
                           JStr ''Wrong or expired sessionid/signature'']]"
    using rejected_credentials_never_flush
      [OF tok observed_inputs_unresolved none, of login_protocol
          "JStr ''Wrong or expired sessionid/signature''" JUndefined JUndefined]
    by (simp add: Let_def observed_client_eq pending_client_eq
        getUser_catch_def handleError_def handleEvent_def perform_def)
  show ?thesis
    using tok pending_inputs_unresolved later plain observed by simp
qed

end
